theory Spec2Isabelle
  imports Main "HOL-Library.Sublist"
begin

section \<open>The console\<close>

text \<open>
  The three scripts talk to the world through \<^verbatim>\<open>print\<close> and \<^verbatim>\<open>input\<close> only.
  The world is the list of lines still waiting on standard input and the list of
  things written to standard output so far. A string is a list of code points below
  256 (Latin-1), which is what \<^typ>\<open>char\<close> holds.
\<close>

datatype event = Print string | Prompt string

datatype exc = ValueError | EOFError

record world =
  stdin :: "string list"
  stdout :: "event list"

text \<open>\<^verbatim>\<open>print(s)\<close> writes one line.\<close>

definition print :: "string \<Rightarrow> world \<Rightarrow> world" where
  "print s w = w\<lparr>stdout := stdout w @ [Print s]\<rparr>"

text \<open>
  \<^verbatim>\<open>input(prompt)\<close> writes the prompt, then hands out the next line of standard input;
  at the end of standard input it raises \<^verbatim>\<open>EOFError\<close>.
\<close>

definition input :: "string \<Rightarrow> world \<Rightarrow> (exc + string) \<times> world" where
  "input prompt w =
     (let w' = w\<lparr>stdout := stdout w @ [Prompt prompt]\<rparr>
      in case stdin w' of
           [] \<Rightarrow> (Inl EOFError, w')
         | l # ls \<Rightarrow> (Inr l, w'\<lparr>stdin := ls\<rparr>))"

subsection \<open>Formatting integers\<close>

text \<open>\<^verbatim>\<open>str(n)\<close> for an integer: decimal digits, with a minus sign when negative.\<close>

definition digit_char :: "nat \<Rightarrow> char" where
  "digit_char d = ''0123456789'' ! (d mod 10)"

fun str_nat :: "nat \<Rightarrow> string" where
  "str_nat n = (if n < 10 then [digit_char n] else str_nat (n div 10) @ [digit_char (n mod 10)])"

declare str_nat.simps [simp del]

definition str_int :: "int \<Rightarrow> string" where
  "str_int i = (if i < 0 then CHR ''-'' # str_nat (nat (- i)) else str_nat (nat i))"

text \<open>The values the scripts print that are not strings: integers and \<^verbatim>\<open>None\<close>.\<close>

datatype pyval = IntV int | NoneV

fun str :: "pyval \<Rightarrow> string" where
  "str (IntV i) = str_int i"
| "str NoneV = ''None''"

subsection \<open>Lower case\<close>

text \<open>
  \<^verbatim>\<open>str.lower()\<close> on code points below 256: the letters A to Z and the accented capitals
  U+00C0 to U+00DE (the multiplication sign U+00D7 apart) move up by 32, everything
  else stays.
\<close>

definition lower_char :: "char \<Rightarrow> char" where
  "lower_char c =
     (let n = (of_char c :: nat)
      in if 65 \<le> n \<and> n \<le> 90 then char_of (n + 32)
         else if 192 \<le> n \<and> n \<le> 222 \<and> n \<noteq> 215 then char_of (n + 32)
         else c)"

definition lower :: "string \<Rightarrow> string" where
  "lower s = map lower_char s"

section \<open>test\_if\_else.py\<close>

fun test_if_else :: "int \<Rightarrow> world \<Rightarrow> int \<times> world" where
  "test_if_else x w =
     (if x > 10 then (x * 2, print ''Large number'' w)
      else if x > 5 then (x + 5, print ''Medium number'' w)
      else if x > 0 then (x + 1, print ''Small positive number'' w)
      else (0, print ''Zero or negative'' w))"

text \<open>The function has no \<^verbatim>\<open>return\<close>, so a call evaluates to \<^verbatim>\<open>None\<close>.\<close>

fun simple_if_else :: "int \<Rightarrow> world \<Rightarrow> pyval \<times> world" where
  "simple_if_else n w =
     (if n mod 2 = 0 then (NoneV, print ''Even'' w)
      else (NoneV, print ''Odd'' w))"

text \<open>The six top-level calls, in order.\<close>

definition if_else_script :: "world \<Rightarrow> world" where
  "if_else_script w0 =
     (let (r1, w1) = test_if_else 15 w0; w2 = print (str (IntV r1)) w1;
          (r2, w3) = test_if_else 7 w2; w4 = print (str (IntV r2)) w3;
          (r3, w5) = test_if_else 3 w4; w6 = print (str (IntV r3)) w5;
          (r4, w7) = test_if_else (- 1) w6; w8 = print (str (IntV r4)) w7;
          (r5, w9) = simple_if_else 4 w8; w10 = print (str r5) w9;
          (r6, w11) = simple_if_else 5 w10; w12 = print (str r6) w11
      in w12)"

text \<open>
  \<^verbatim>\<open>test_if_else\<close> takes any number. Beside the integers there is one input its
  comparisons treat differently: the float \<^verbatim>\<open>nan\<close>, for which every comparison is
  false and every sum and product is \<^verbatim>\<open>nan\<close> again. On these inputs the function
  reads as follows; in its last branch \<^verbatim>\<open>result = 0\<close> is the integer 0 whatever \<open>x\<close>
  was.
\<close>

datatype number = Whole int | NaN

fun num_gt :: "number \<Rightarrow> int \<Rightarrow> bool" where
  "num_gt (Whole i) k = (i > k)"
| "num_gt NaN k = False"

fun num_le :: "number \<Rightarrow> int \<Rightarrow> bool" where
  "num_le (Whole i) k = (i \<le> k)"
| "num_le NaN k = False"

fun num_mul :: "number \<Rightarrow> int \<Rightarrow> number" where
  "num_mul (Whole i) k = Whole (i * k)"
| "num_mul NaN k = NaN"

fun num_add :: "number \<Rightarrow> int \<Rightarrow> number" where
  "num_add (Whole i) k = Whole (i + k)"
| "num_add NaN k = NaN"

fun test_if_else_number :: "number \<Rightarrow> world \<Rightarrow> number \<times> world" where
  "test_if_else_number x w =
     (if num_gt x 10 then (num_mul x 2, print ''Large number'' w)
      else if num_gt x 5 then (num_add x 5, print ''Medium number'' w)
      else if num_gt x 0 then (num_add x 1, print ''Small positive number'' w)
      else (Whole 0, print ''Zero or negative'' w))"

section \<open>examples/simple.py\<close>

definition calculate_area :: "'a::times \<Rightarrow> 'a \<Rightarrow> 'a" where
  "calculate_area length' width = (let area = length' * width in area)"

text \<open>\<^verbatim>\<open>while count < 3: print(f"Count: {count}"); count += 1\<close>\<close>

function while_count :: "int \<Rightarrow> world \<Rightarrow> int \<times> world" where
  "while_count count w =
     (if count < 3 then while_count (count + 1) (print (''Count: '' @ str_int count) w)
      else (count, w))"
  by pat_completeness auto
termination
  by (relation "measure (\<lambda>(count, w). nat (3 - count))") auto

declare while_count.simps [simp del]

text \<open>
  The script from its first line to its last. \<open>int_of\<close> is the interpreter's
  \<^verbatim>\<open>int(...)\<close> on a string, \<open>None\<close> where it raises \<^verbatim>\<open>ValueError\<close>. The result is
  the exception that ended the run, if any, and the world at the end.
\<close>

definition simple_script :: "(string \<Rightarrow> int option) \<Rightarrow> world \<Rightarrow> exc option \<times> world" where
  "simple_script int_of w0 =
     (let x = (5::int); y = (10::int); result = x + y;
          w1 = print (''The sum is: '' @ str_int result) w0;
          rectangle_area = calculate_area (8::int) 6;
          w2 = print (''Rectangle area: '' @ str_int rectangle_area) w1
      in case input ''Enter your age: '' w2 of
           (Inl e, w3) \<Rightarrow> (Some e, w3)
         | (Inr line, w3) \<Rightarrow>
             (case int_of line of
                None \<Rightarrow> (Some ValueError, w3)
              | Some age \<Rightarrow>
                  (let w4 = (if age \<ge> 18 then print ''You are an adult'' w3
                             else print ''You are a minor'' w3);
                       w5 = print ''Counting from 1 to 5:'' w4;
                       w6 = fold (\<lambda>i. print (''Number: '' @ str_int i)) [1..5] w5;
                       numbers = [1, 2, 3, 4, 5 :: int];
                       total = fold (\<lambda>num total. total + num) numbers 0;
                       w7 = print (''Total sum: '' @ str_int total) w6;
                       (count, w8) = while_count 0 w7
                   in (None, print ''Done!'' w8))))"

section \<open>test\_calculator.py\<close>

definition add :: "'a::plus \<Rightarrow> 'a \<Rightarrow> 'a" where
  "add a b = a + b"

text \<open>
  The \<^verbatim>\<open>while True\<close> loop of \<^verbatim>\<open>main\<close>. The numbers are the interpreter's floats: any
  type \<open>'f\<close> with its own order, zero and addition. \<open>float_of\<close> is \<^verbatim>\<open>float(...)\<close> on a
  string, \<open>None\<close> where it raises \<^verbatim>\<open>ValueError\<close>; \<open>fmt\<close> is what an f-string makes of a
  float. The loop returns \<open>None\<close> when it is left by \<^verbatim>\<open>break\<close> and the exception when
  one is raised.
\<close>

function main_loop ::
  "(string \<Rightarrow> 'f::{ord,zero,plus} option) \<Rightarrow> ('f \<Rightarrow> string) \<Rightarrow> world \<Rightarrow> exc option \<times> world"
where
  "main_loop float_of fmt w =
     (case input ''Enter first number: '' w of
        (Inl e, w1) \<Rightarrow> (Some e, w1)
      | (Inr s1, w1) \<Rightarrow>
          (case float_of s1 of
             None \<Rightarrow> (Some ValueError, w1)
           | Some num1 \<Rightarrow>
               (case input ''Enter second number: '' w1 of
                  (Inl e, w2) \<Rightarrow> (Some e, w2)
                | (Inr s2, w2) \<Rightarrow>
                    (case float_of s2 of
                       None \<Rightarrow> (Some ValueError, w2)
                     | Some num2 \<Rightarrow>
                         if num1 < 0 \<or> num2 < 0
                         then main_loop float_of fmt (print ''Negative numbers not allowed'' w2)
                         else
                           (let result = add num1 num2;
                                w3 = print (''Result: '' @ fmt result) w2
                            in case input ''Continue? (y/n): '' w3 of
                                 (Inl e, w4) \<Rightarrow> (Some e, w4)
                               | (Inr choice, w4) \<Rightarrow>
                                   if lower choice \<noteq> ''y'' then (None, w4)
                                   else main_loop float_of fmt w4)))))"
  by pat_completeness auto

text \<open>Every line handed out by \<^verbatim>\<open>input\<close> shortens standard input, so the loop ends.\<close>

termination main_loop
  by (relation "measure (\<lambda>(float_of, fmt, w). length (stdin w))")
     (auto simp: input_def Let_def print_def split: list.splits)

declare main_loop.simps [simp del]

text \<open>\<^verbatim>\<open>main\<close>: the banner, the loop, and the farewell once the loop is left.\<close>

definition main ::
  "(string \<Rightarrow> 'f::{ord,zero,plus} option) \<Rightarrow> ('f \<Rightarrow> string) \<Rightarrow> world \<Rightarrow> exc option \<times> world"
where
  "main float_of fmt w0 =
     (let w1 = print ''Simple Calculator'' w0
      in case main_loop float_of fmt w1 of
           (Some e, w2) \<Rightarrow> (Some e, w2)
         | (None, w2) \<Rightarrow> (None, print ''Goodbye!'' w2))"

section \<open>Whole numbers as an instance of the interpreter's conversions\<close>

text \<open>
  The scripts are modelled for any \<open>int_of\<close>, \<open>float_of\<close> and \<open>fmt\<close>. To run them on
  concrete input the three are instantiated on whole numbers: a string of decimal
  digits with an optional sign is read as that number, anything else raises, and a
  whole float is written with \<^verbatim>\<open>.0\<close> after its digits. On the numbers used below
  this is what the interpreter does.
\<close>

definition digit_val :: "char \<Rightarrow> nat option" where
  "digit_val c =
     (let n = (of_char c :: nat) in if 48 \<le> n \<and> n \<le> 57 then Some (n - 48) else None)"

fun digits_val :: "nat \<Rightarrow> string \<Rightarrow> nat option" where
  "digits_val acc [] = Some acc"
| "digits_val acc (c # cs) =
     (case digit_val c of None \<Rightarrow> None | Some d \<Rightarrow> digits_val (10 * acc + d) cs)"

definition whole_of :: "string \<Rightarrow> int option" where
  "whole_of s =
     (case s of
        [] \<Rightarrow> None
      | c # cs \<Rightarrow>
          if c = CHR ''-'' then (if cs = [] then None else map_option (\<lambda>n. - int n) (digits_val 0 cs))
          else if c = CHR ''+'' then (if cs = [] then None else map_option int (digits_val 0 cs))
          else map_option int (digits_val 0 s))"

definition whole_fmt :: "int \<Rightarrow> string" where
  "whole_fmt i = str_int i @ ''.0''"

declare test_if_else.simps [simp del]
declare simple_if_else.simps [simp del]
declare test_if_else_number.simps [simp del]

section \<open>Facts about the console and the conversions\<close>

lemma of_char_lower_char:
  "(of_char (lower_char c) :: nat) =
     (let n = of_char c in
      if 65 \<le> n \<and> n \<le> 90 then n + 32
      else if 192 \<le> n \<and> n \<le> 222 \<and> n \<noteq> 215 then n + 32 else n)"
  by (simp add: lower_char_def Let_def)

lemma lower_char_y: "lower_char c = CHR ''y'' \<longleftrightarrow> c = CHR ''y'' \<or> c = CHR ''Y''"
proof -
  have "lower_char c = CHR ''y'' \<longleftrightarrow> (of_char (lower_char c) :: nat) = of_char (CHR ''y'')"
    by (simp only: of_char_eq_iff)
  also have "\<dots> \<longleftrightarrow> (of_char c :: nat) = 121 \<or> (of_char c :: nat) = 89"
    by (auto simp: of_char_lower_char Let_def)
  also have "\<dots> \<longleftrightarrow> (of_char c :: nat) = of_char (CHR ''y'') \<or> (of_char c :: nat) = of_char (CHR ''Y'')"
    by simp
  also have "\<dots> \<longleftrightarrow> c = CHR ''y'' \<or> c = CHR ''Y''"
    by (simp only: of_char_eq_iff)
  finally show ?thesis .
qed

lemma lower_y: "lower s = ''y'' \<longleftrightarrow> s = ''y'' \<or> s = ''Y''"
  by (cases s) (auto simp: lower_def lower_char_y)

subsection \<open>One turn of the calculator loop, by the shape of standard input\<close>

lemma main_loop_unfold:
  "main_loop float_of fmt \<lparr>stdin = ins, stdout = out\<rparr> =
     (case ins of
        [] \<Rightarrow> (Some EOFError, \<lparr>stdin = [], stdout = out @ [Prompt ''Enter first number: '']\<rparr>)
      | s1 # r1 \<Rightarrow>
          (case float_of s1 of
             None \<Rightarrow> (Some ValueError, \<lparr>stdin = r1, stdout = out @ [Prompt ''Enter first number: '']\<rparr>)
           | Some a \<Rightarrow>
               (case r1 of
                  [] \<Rightarrow> (Some EOFError, \<lparr>stdin = [], stdout = out @
                           [Prompt ''Enter first number: '', Prompt ''Enter second number: '']\<rparr>)
                | s2 # r2 \<Rightarrow>
                    (case float_of s2 of
                       None \<Rightarrow> (Some ValueError, \<lparr>stdin = r2, stdout = out @
                           [Prompt ''Enter first number: '', Prompt ''Enter second number: '']\<rparr>)
                     | Some b \<Rightarrow>
                         if a < 0 \<or> b < 0
                         then main_loop float_of fmt \<lparr>stdin = r2, stdout = out @
                           [Prompt ''Enter first number: '', Prompt ''Enter second number: '',
                            Print ''Negative numbers not allowed'']\<rparr>
                         else
                           (case r2 of
                              [] \<Rightarrow> (Some EOFError, \<lparr>stdin = [], stdout = out @
                                [Prompt ''Enter first number: '', Prompt ''Enter second number: '',
                                 Print (''Result: '' @ fmt (a + b)), Prompt ''Continue? (y/n): '']\<rparr>)
                            | choice # r3 \<Rightarrow>
                                if lower choice \<noteq> ''y''
                                then (None, \<lparr>stdin = r3, stdout = out @
                                  [Prompt ''Enter first number: '', Prompt ''Enter second number: '',
                                   Print (''Result: '' @ fmt (a + b)), Prompt ''Continue? (y/n): '']\<rparr>)
                                else main_loop float_of fmt \<lparr>stdin = r3, stdout = out @
                                  [Prompt ''Enter first number: '', Prompt ''Enter second number: '',
                                   Print (''Result: '' @ fmt (a + b)), Prompt ''Continue? (y/n): '']\<rparr>)))))"
  by (subst main_loop.simps)
     (simp add: input_def Let_def print_def add_def split: list.splits option.splits)

text \<open>The loop only ever adds to what has been written.\<close>

lemma main_loop_stdout:
  "prefix out (stdout (snd (main_loop float_of fmt \<lparr>stdin = ins, stdout = out\<rparr>)))"
proof (induction ins arbitrary: out rule: length_induct)
  case (1 ins)
  have IH: "\<And>ys out zs. length ys < length ins \<Longrightarrow>
              prefix out (stdout (snd (main_loop float_of fmt \<lparr>stdin = ys, stdout = out @ zs\<rparr>)))"
    using 1 append_prefixD by blast
  show ?case
    by (subst main_loop_unfold) (auto split: list.splits option.splits intro: IH)
qed

lemma main_unfold:
  "main float_of fmt \<lparr>stdin = ins, stdout = out\<rparr> =
     (case main_loop float_of fmt \<lparr>stdin = ins, stdout = out @ [Print ''Simple Calculator'']\<rparr> of
        (Some e, w2) \<Rightarrow> (Some e, w2)
      | (None, w2) \<Rightarrow> (None, print ''Goodbye!'' w2))"
  by (simp add: main_def print_def)


lemma main_loop_accept_prefix:
  assumes "float_of s1 = Some a" "float_of s2 = Some b" "\<not> (a < 0 \<or> b < 0)"
  shows "prefix (out @ [Prompt ''Enter first number: '', Prompt ''Enter second number: '',
                        Print (''Result: '' @ fmt (a + b)), Prompt ''Continue? (y/n): ''])
           (stdout (snd (main_loop float_of fmt \<lparr>stdin = s1 # s2 # rest, stdout = out\<rparr>)))"
  using assms
  by (subst main_loop_unfold) (auto split: list.splits simp: main_loop_stdout)

text \<open>Any number of rejected pairs in a row are each answered the same way.\<close>

lemma main_loop_reject_many:
  "\<forall>p \<in> set pairs. \<exists>a b. float_of (fst p) = Some a \<and> float_of (snd p) = Some b \<and> (a < 0 \<or> b < 0) \<Longrightarrow>
   main_loop float_of fmt \<lparr>stdin = concat (map (\<lambda>p. [fst p, snd p]) pairs) @ rest, stdout = out\<rparr> =
   main_loop float_of fmt \<lparr>stdin = rest, stdout = out @ concat (replicate (length pairs)
       [Prompt ''Enter first number: '', Prompt ''Enter second number: '',
        Print ''Negative numbers not allowed''])\<rparr>"
proof (induction pairs arbitrary: out)
  case Nil
  then show ?case by simp
next
  case (Cons p ps)
  from Cons.prems obtain a b where
    ab: "float_of (fst p) = Some a" "float_of (snd p) = Some b" "a < 0 \<or> b < 0"
    by auto
  have "main_loop float_of fmt
          \<lparr>stdin = concat (map (\<lambda>p. [fst p, snd p]) (p # ps)) @ rest, stdout = out\<rparr> =
        main_loop float_of fmt
          \<lparr>stdin = concat (map (\<lambda>p. [fst p, snd p]) ps) @ rest, stdout = out @
             [Prompt ''Enter first number: '', Prompt ''Enter second number: '',
              Print ''Negative numbers not allowed'']\<rparr>"
    using ab by (subst main_loop_unfold) auto
  also have "\<dots> = main_loop float_of fmt \<lparr>stdin = rest, stdout = (out @
             [Prompt ''Enter first number: '', Prompt ''Enter second number: '',
              Print ''Negative numbers not allowed'']) @ concat (replicate (length ps)
       [Prompt ''Enter first number: '', Prompt ''Enter second number: '',
        Print ''Negative numbers not allowed''])\<rparr>"
    using Cons.prems by (intro Cons.IH) simp
  finally show ?case by simp
qed


subsection \<open>Running the two scripts without a loop on input\<close>

lemma str_int_digits:
  "str_int 0 = ''0''" "str_int 1 = ''1''" "str_int 2 = ''2''" "str_int 3 = ''3''"
  "str_int 4 = ''4''" "str_int 5 = ''5''" "str_int 12 = ''12''" "str_int 15 = ''15''"
  "str_int 30 = ''30''" "str_int 48 = ''48''"
  by (simp_all add: str_int_def str_nat.simps digit_char_def)

lemma while_count_0:
  "while_count 0 \<lparr>stdin = ins, stdout = out\<rparr> =
     (3, \<lparr>stdin = ins, stdout = out @ [Print ''Count: 0'', Print ''Count: 1'', Print ''Count: 2'']\<rparr>)"
  by (simp add: while_count.simps print_def str_int_digits)

lemma simple_script_run:
  "int_of line = Some age \<Longrightarrow>
   simple_script int_of \<lparr>stdin = line # rest, stdout = out\<rparr> =
     (None, \<lparr>stdin = rest, stdout = out @
        [Print ''The sum is: 15'', Print ''Rectangle area: 48'', Prompt ''Enter your age: '',
         Print (if age \<ge> 18 then ''You are an adult'' else ''You are a minor''),
         Print ''Counting from 1 to 5:'',
         Print ''Number: 1'', Print ''Number: 2'', Print ''Number: 3'', Print ''Number: 4'',
         Print ''Number: 5'', Print ''Total sum: 15'',
         Print ''Count: 0'', Print ''Count: 1'', Print ''Count: 2'', Print ''Done!'']\<rparr>)"
  by (simp add: simple_script_def calculate_area_def input_def Let_def print_def
        str_int_digits while_count_0 upto.simps)



lemma if_else_script_run:
  "if_else_script \<lparr>stdin = ins, stdout = out\<rparr> =
     \<lparr>stdin = ins, stdout = out @
        [Print ''Large number'', Print ''30'', Print ''Medium number'', Print ''12'',
         Print ''Small positive number'', Print ''4'', Print ''Zero or negative'', Print ''0'',
         Print ''Even'', Print ''None'', Print ''Odd'', Print ''None'']\<rparr>"
  by (simp add: if_else_script_def test_if_else.simps simple_if_else.simps print_def str_int_digits)

section \<open>The banded classifier\<close>

text \<open>
  C2. For every integer \<open>x\<close>, \<^verbatim>\<open>test_if_else\<close> takes exactly one of four bands, tested by
  strict comparisons in this order: above 10 it prints "Large number" and returns \<open>2x\<close>;
  above 5 (and at most 10) it prints "Medium number" and returns \<open>x + 5\<close>; above 0 (and at
  most 5) it prints "Small positive number" and returns \<open>x + 1\<close>; otherwise it prints
  "Zero or negative" and returns 0. The bands are written with both their bounds, so they
  are disjoint and cover every integer. In particular 15 gives 30, 7 gives 12, 3 gives 4,
  -1 gives 0, and the boundary value 10 gives 15 in the medium band.
\<close>

theorem test_if_else_bands:
  "(10 < x \<longrightarrow> test_if_else x w = (2 * x, print ''Large number'' w)) \<and>
   (5 < x \<and> x \<le> 10 \<longrightarrow> test_if_else x w = (x + 5, print ''Medium number'' w)) \<and>
   (0 < x \<and> x \<le> 5 \<longrightarrow> test_if_else x w = (x + 1, print ''Small positive number'' w)) \<and>
   (x \<le> 0 \<longrightarrow> test_if_else x w = (0, print ''Zero or negative'' w)) \<and>
   test_if_else 15 w = (30, print ''Large number'' w) \<and>
   test_if_else 7 w = (12, print ''Medium number'' w) \<and>
   test_if_else 3 w = (4, print ''Small positive number'' w) \<and>
   test_if_else (- 1) w = (0, print ''Zero or negative'' w) \<and>
   test_if_else 10 w = (15, print ''Medium number'' w)"
  by (simp add: test_if_else.simps)

theorem test_if_else_bands_witness:
  "(10::int) < 15 \<and>
   test_if_else 15 \<lparr>stdin = [], stdout = []\<rparr> = (30, \<lparr>stdin = [], stdout = [Print ''Large number'']\<rparr>) \<and>
   (5::int) < 7 \<and> (7::int) \<le> 10 \<and>
   test_if_else 7 \<lparr>stdin = [], stdout = []\<rparr> = (12, \<lparr>stdin = [], stdout = [Print ''Medium number'']\<rparr>) \<and>
   (0::int) < 3 \<and> (3::int) \<le> 5 \<and>
   test_if_else 3 \<lparr>stdin = [], stdout = []\<rparr> = (4, \<lparr>stdin = [], stdout = [Print ''Small positive number'']\<rparr>) \<and>
   (- 1::int) \<le> 0 \<and>
   test_if_else (- 1) \<lparr>stdin = [], stdout = []\<rparr> = (0, \<lparr>stdin = [], stdout = [Print ''Zero or negative'']\<rparr>)"
  using test_if_else_bands [of 15 "\<lparr>stdin = [], stdout = []\<rparr>"]
        test_if_else_bands [of 7 "\<lparr>stdin = [], stdout = []\<rparr>"]
        test_if_else_bands [of 3 "\<lparr>stdin = [], stdout = []\<rparr>"]
        test_if_else_bands [of "- 1" "\<lparr>stdin = [], stdout = []\<rparr>"]
  by (simp add: print_def)

text \<open>On an integer the function over numbers is the function over integers.\<close>

lemma test_if_else_number_Whole:
  "test_if_else_number (Whole i) w =
     (Whole (fst (test_if_else i w)), snd (test_if_else i w))"
  by (simp add: test_if_else_number.simps test_if_else.simps)

text \<open>
  C9 (as amended). For every integer \<open>x\<close>, the value \<^verbatim>\<open>test_if_else\<close> returns is never
  negative; it is 0 exactly when \<open>x \<le> 0\<close>; and every \<open>x > 0\<close> gives a result above 0.
\<close>

theorem test_if_else_sign:
  "0 \<le> fst (test_if_else x w) \<and>
   (fst (test_if_else x w) = 0 \<longleftrightarrow> x \<le> 0) \<and>
   (0 < x \<longrightarrow> 0 < fst (test_if_else x w))"
  by (simp add: test_if_else.simps)

theorem test_if_else_sign_witness:
  "(0::int) < 6 \<and> 0 < fst (test_if_else 6 \<lparr>stdin = [], stdout = []\<rparr>)"
  using test_if_else_sign [of 6 "\<lparr>stdin = [], stdout = []\<rparr>"] by simp

text \<open>
  C9 as it was stated speaks of every input. At the float \<^verbatim>\<open>nan\<close> the three tests
  fail, the last branch prints "Zero or negative" and returns 0, and yet
  \<^verbatim>\<open>nan <= 0\<close> is false: the result is 0 for an input that is not at most 0.
\<close>

theorem test_if_else_nan_counterexample:
  "test_if_else_number NaN \<lparr>stdin = [], stdout = []\<rparr> =
     (Whole 0, \<lparr>stdin = [], stdout = [Print ''Zero or negative'']\<rparr>) \<and>
   \<not> num_le NaN 0"
  by (simp add: test_if_else_number.simps print_def)

text \<open>
  C10. \<^verbatim>\<open>simple_if_else(n)\<close> evaluates to \<^verbatim>\<open>None\<close> for every \<open>n\<close>, so
  \<^verbatim>\<open>print(simple_if_else(n))\<close> writes "Even" or "Odd" and, right after it, the line
  "None". In the script's output these are the last four lines: "Even", "None", "Odd",
  "None".
\<close>

theorem simple_if_else_None:
  "fst (simple_if_else n w) = NoneV \<and>
   (case simple_if_else n \<lparr>stdin = ins, stdout = out\<rparr> of (r, w') \<Rightarrow> print (str r) w') =
     \<lparr>stdin = ins, stdout = out @
        [Print (if n mod 2 = 0 then ''Even'' else ''Odd''), Print ''None'']\<rparr> \<and>
   if_else_script \<lparr>stdin = ins, stdout = out\<rparr> =
     \<lparr>stdin = ins, stdout = out @
        [Print ''Large number'', Print ''30'', Print ''Medium number'', Print ''12'',
         Print ''Small positive number'', Print ''4'', Print ''Zero or negative'', Print ''0'',
         Print ''Even'', Print ''None'', Print ''Odd'', Print ''None'']\<rparr>"
  by (simp add: simple_if_else.simps print_def if_else_script_run)

section \<open>The arithmetic and control-flow demo\<close>

text \<open>
  C7. \<^verbatim>\<open>calculate_area(length, width)\<close> is \<open>length * width\<close> in every type that has a
  multiplication, with no check on its arguments and no way to fail: zero and negative
  arguments are multiplied like any other.
\<close>

theorem calculate_area_mult:
  "calculate_area length' width = length' * width \<and>
   calculate_area (8::int) 6 = 48 \<and>
   calculate_area (0::int) b = 0 \<and>
   calculate_area (a::int) 0 = 0 \<and>
   calculate_area (- a) (b::int) = - (a * b) \<and>
   calculate_area (- 3::int) (- 4) = 12"
  by (simp add: calculate_area_def)

text \<open>
  C6. When the line read by the age check converts to the integer \<open>i\<close>, the script
  prints "You are an adult" if and only if \<open>i \<ge> 18\<close>, and "You are a minor" if and only
  if \<open>i < 18\<close>.
\<close>

theorem age_check:
  assumes "int_of line = Some i"
  shows "(Print ''You are an adult''
            \<in> set (stdout (snd (simple_script int_of \<lparr>stdin = line # rest, stdout = []\<rparr>)))
            \<longleftrightarrow> 18 \<le> i) \<and>
         (Print ''You are a minor''
            \<in> set (stdout (snd (simple_script int_of \<lparr>stdin = line # rest, stdout = []\<rparr>)))
            \<longleftrightarrow> i < 18)"
  using assms by (simp add: simple_script_run)

theorem age_check_witness:
  "whole_of ''18'' = Some 18 \<and>
   Print ''You are an adult''
     \<in> set (stdout (snd (simple_script whole_of \<lparr>stdin = [''18''], stdout = []\<rparr>))) \<and>
   Print ''You are a minor''
     \<notin> set (stdout (snd (simple_script whole_of \<lparr>stdin = [''18''], stdout = []\<rparr>)))"
proof -
  have h: "whole_of ''18'' = Some 18"
    by (simp add: whole_of_def digit_val_def)
  show ?thesis using h age_check [of whole_of "''18''" 18 "[]"] by simp
qed

text \<open>
  C8. The while loop started at \<open>count = 0\<close> with bound 3 ends (the function is total,
  by the measure \<open>3 - count\<close>) with \<open>count = 3\<close>, having printed "Count: 0", "Count: 1",
  "Count: 2" in this order and nothing else. In the script these three lines are followed
  by "Done!", which ends the output; no "Count:" line comes before them, and "Count: 3" is
  never printed.
\<close>

theorem while_counter:
  "while_count 0 \<lparr>stdin = ins, stdout = out\<rparr> =
     (3, \<lparr>stdin = ins, stdout = out @
            [Print ''Count: 0'', Print ''Count: 1'', Print ''Count: 2'']\<rparr>) \<and>
   (int_of line = Some age \<longrightarrow>
      (\<exists>before. stdout (snd (simple_script int_of \<lparr>stdin = line # rest, stdout = []\<rparr>)) =
         before @ [Print ''Count: 0'', Print ''Count: 1'', Print ''Count: 2'', Print ''Done!''] \<and>
         (\<forall>n. Print (''Count: '' @ str_int n) \<notin> set before)) \<and>
      Print ''Count: 3''
        \<notin> set (stdout (snd (simple_script int_of \<lparr>stdin = line # rest, stdout = []\<rparr>))))"
proof -
  have "int_of line = Some age \<Longrightarrow>
      stdout (snd (simple_script int_of \<lparr>stdin = line # rest, stdout = []\<rparr>)) =
        [Print ''The sum is: 15'', Print ''Rectangle area: 48'', Prompt ''Enter your age: '',
         Print (if age \<ge> 18 then ''You are an adult'' else ''You are a minor''),
         Print ''Counting from 1 to 5:'',
         Print ''Number: 1'', Print ''Number: 2'', Print ''Number: 3'', Print ''Number: 4'',
         Print ''Number: 5'', Print ''Total sum: 15'']
        @ [Print ''Count: 0'', Print ''Count: 1'', Print ''Count: 2'', Print ''Done!'']"
    by (simp add: simple_script_run)
  moreover have "\<forall>n. Print (''Count: '' @ str_int n) \<notin> set
        [Print ''The sum is: 15'', Print ''Rectangle area: 48'', Prompt ''Enter your age: '',
         Print (if age \<ge> 18 then ''You are an adult'' else ''You are a minor''),
         Print ''Counting from 1 to 5:'',
         Print ''Number: 1'', Print ''Number: 2'', Print ''Number: 3'', Print ''Number: 4'',
         Print ''Number: 5'', Print ''Total sum: 15'']"
    by simp
  moreover have "int_of line = Some age \<Longrightarrow>
      Print ''Count: 3''
        \<notin> set (stdout (snd (simple_script int_of \<lparr>stdin = line # rest, stdout = []\<rparr>)))"
    by (simp add: simple_script_run)
  ultimately show ?thesis
    using while_count_0 by blast
qed

theorem while_counter_witness:
  "whole_of ''7'' = Some 7 \<and>
   while_count 0 \<lparr>stdin = [], stdout = []\<rparr> =
     (3, \<lparr>stdin = [], stdout = [Print ''Count: 0'', Print ''Count: 1'', Print ''Count: 2'']\<rparr>) \<and>
   Print ''Count: 3''
     \<notin> set (stdout (snd (simple_script whole_of \<lparr>stdin = [''7''], stdout = []\<rparr>)))"
proof -
  have h: "whole_of ''7'' = Some 7"
    by (simp add: whole_of_def digit_val_def)
  show ?thesis using h while_counter [of "[]" "[]" whole_of "''7''" 7 "[]"] by simp
qed

subsection \<open>Runs of the whole-number instance\<close>

lemma whole_of_samples:
  "whole_of ''1'' = Some 1" "whole_of ''2'' = Some 2" "whole_of ''3'' = Some 3"
  "whole_of ''4'' = Some 4" "whole_of ''5'' = Some 5" "whole_of ''-1'' = Some (- 1)"
  "whole_of ''-4'' = Some (- 4)" "whole_of ''x'' = None" "whole_of '''' = None"
  by (simp_all add: whole_of_def digit_val_def)

lemma whole_fmt_samples:
  "whole_fmt 3 = ''3.0''" "whole_fmt 7 = ''7.0''"
  by (simp_all add: whole_fmt_def str_int_def str_nat.simps digit_char_def)

section \<open>The calculator loop\<close>




text \<open>
  C5. With the three input lines "3", "4" and "n", on an interpreter where
  \<^verbatim>\<open>float("3")\<close> and \<^verbatim>\<open>float("4")\<close> are not below zero and their sum is written
  \<^verbatim>\<open>7.0\<close>, the calculator writes its banner, the two prompts, "Result: 7.0", the
  question and then "Goodbye!", and ends without an exception. The loop body runs
  exactly once: each turn starts with the prompt for the first number, and that prompt is
  written once.
\<close>

theorem calculator_3_4_n:
  assumes "float_of ''3'' = Some a" "float_of ''4'' = Some b" "\<not> (a < 0 \<or> b < 0)"
    and "fmt (a + b) = ''7.0''"
  shows "main float_of fmt \<lparr>stdin = [''3'', ''4'', ''n''], stdout = []\<rparr> =
           (None, \<lparr>stdin = [], stdout =
              [Print ''Simple Calculator'',
               Prompt ''Enter first number: '', Prompt ''Enter second number: '',
               Print ''Result: 7.0'', Prompt ''Continue? (y/n): '', Print ''Goodbye!'']\<rparr>) \<and>
         length (filter (\<lambda>e. e = Prompt ''Enter first number: '')
           (stdout (snd (main float_of fmt \<lparr>stdin = [''3'', ''4'', ''n''], stdout = []\<rparr>)))) = 1"
  using assms by (simp add: main_unfold main_loop_unfold lower_y print_def)

theorem calculator_3_4_n_witness:
  "whole_of ''3'' = Some 3 \<and> whole_of ''4'' = Some 4 \<and> \<not> ((3::int) < 0 \<or> (4::int) < 0) \<and>
   whole_fmt (3 + 4) = ''7.0'' \<and>
   main whole_of whole_fmt \<lparr>stdin = [''3'', ''4'', ''n''], stdout = []\<rparr> =
     (None, \<lparr>stdin = [], stdout =
        [Print ''Simple Calculator'',
         Prompt ''Enter first number: '', Prompt ''Enter second number: '',
         Print ''Result: 7.0'', Prompt ''Continue? (y/n): '', Print ''Goodbye!'']\<rparr>)"
  using calculator_3_4_n [of whole_of 3 4 whole_fmt]
  by (simp add: whole_of_samples whole_fmt_samples)

text \<open>
  C3. On a turn of the loop whose two lines convert to \<open>a\<close> and \<open>b\<close>, the pair is rejected
  if and only if \<open>a < 0\<close> or \<open>b < 0\<close>. On rejection the turn writes its two prompts and
  "Negative numbers not allowed", nothing else (no "Result:" line), and the loop starts
  over on the rest of the input; however many rejected pairs follow one another, each is
  answered in this way. Otherwise the turn writes its two prompts and
  "Result: " followed by \<open>a + b\<close>.
\<close>

theorem negative_rejection:
  assumes "float_of s1 = Some a" "float_of s2 = Some b"
  shows "(a < 0 \<or> b < 0 \<longrightarrow>
            main_loop float_of fmt \<lparr>stdin = s1 # s2 # rest, stdout = out\<rparr> =
              main_loop float_of fmt \<lparr>stdin = rest, stdout = out @
                 [Prompt ''Enter first number: '', Prompt ''Enter second number: '',
                  Print ''Negative numbers not allowed'']\<rparr>) \<and>
         (prefix (out @
                 [Prompt ''Enter first number: '', Prompt ''Enter second number: '',
                  Print ''Negative numbers not allowed''])
            (stdout (snd (main_loop float_of fmt \<lparr>stdin = s1 # s2 # rest, stdout = out\<rparr>)))
          \<longleftrightarrow> a < 0 \<or> b < 0) \<and>
         (prefix (out @
                 [Prompt ''Enter first number: '', Prompt ''Enter second number: '',
                  Print (''Result: '' @ fmt (a + b))])
            (stdout (snd (main_loop float_of fmt \<lparr>stdin = s1 # s2 # rest, stdout = out\<rparr>)))
          \<longleftrightarrow> \<not> (a < 0 \<or> b < 0)) \<and>
         ((\<forall>p \<in> set pairs. \<exists>x y. float_of (fst p) = Some x \<and> float_of (snd p) = Some y \<and>
              (x < 0 \<or> y < 0)) \<longrightarrow>
            main_loop float_of fmt
              \<lparr>stdin = concat (map (\<lambda>p. [fst p, snd p]) pairs) @ rest, stdout = out\<rparr> =
            main_loop float_of fmt \<lparr>stdin = rest, stdout = out @
              concat (replicate (length pairs)
                 [Prompt ''Enter first number: '', Prompt ''Enter second number: '',
                  Print ''Negative numbers not allowed''])\<rparr>)"
proof -
  let ?run = "stdout (snd (main_loop float_of fmt \<lparr>stdin = s1 # s2 # rest, stdout = out\<rparr>))"
  let ?neg = "out @ [Prompt ''Enter first number: '', Prompt ''Enter second number: '',
                     Print ''Negative numbers not allowed'']"
  let ?res = "out @ [Prompt ''Enter first number: '', Prompt ''Enter second number: '',
                     Print (''Result: '' @ fmt (a + b))]"
  have differ: "\<not> (prefix ?neg zs \<and> prefix ?res zs)" for zs
  proof
    assume "prefix ?neg zs \<and> prefix ?res zs"
    then have "take (length ?neg) zs = ?neg" "take (length ?res) zs = ?res"
      by (auto simp: prefix_def)
    then have "?neg = ?res" by simp
    then show False by simp
  qed
  have rej: "main_loop float_of fmt \<lparr>stdin = s1 # s2 # rest, stdout = out\<rparr> =
               main_loop float_of fmt \<lparr>stdin = rest, stdout = ?neg\<rparr>" if "a < 0 \<or> b < 0"
    using assms that by (subst main_loop_unfold) auto
  have rej_out: "prefix ?neg ?run" if "a < 0 \<or> b < 0"
    using rej [OF that] main_loop_stdout [of ?neg float_of fmt rest] by simp
  have acc_out: "prefix ?res ?run" if "\<not> (a < 0 \<or> b < 0)"
    using main_loop_accept_prefix [OF assms that, of out fmt rest]
    by (auto simp: prefix_def)
  have many: "(\<forall>p \<in> set pairs. \<exists>x y. float_of (fst p) = Some x \<and> float_of (snd p) = Some y \<and>
              (x < 0 \<or> y < 0)) \<longrightarrow>
            main_loop float_of fmt
              \<lparr>stdin = concat (map (\<lambda>p. [fst p, snd p]) pairs) @ rest, stdout = out\<rparr> =
            main_loop float_of fmt \<lparr>stdin = rest, stdout = out @
              concat (replicate (length pairs)
                 [Prompt ''Enter first number: '', Prompt ''Enter second number: '',
                  Print ''Negative numbers not allowed''])\<rparr>"
    using main_loop_reject_many [of pairs float_of fmt rest out] by blast
  show ?thesis
    using rej rej_out acc_out differ [of ?run] many by blast
qed

theorem negative_rejection_witness:
  "whole_of ''-1'' = Some (- 1) \<and> whole_of ''2'' = Some 2 \<and> ((- 1::int) < 0 \<or> (2::int) < 0) \<and>
   main_loop whole_of whole_fmt \<lparr>stdin = [''-1'', ''2''], stdout = []\<rparr> =
     (Some EOFError, \<lparr>stdin = [], stdout =
        [Prompt ''Enter first number: '', Prompt ''Enter second number: '',
         Print ''Negative numbers not allowed'', Prompt ''Enter first number: '']\<rparr>) \<and>
   main_loop whole_of whole_fmt \<lparr>stdin = [''-1'', ''2'', ''3'', ''-4''], stdout = []\<rparr> =
     (Some EOFError, \<lparr>stdin = [], stdout =
        [Prompt ''Enter first number: '', Prompt ''Enter second number: '',
         Print ''Negative numbers not allowed'',
         Prompt ''Enter first number: '', Prompt ''Enter second number: '',
         Print ''Negative numbers not allowed'', Prompt ''Enter first number: '']\<rparr>)"
proof -
  have h: "whole_of ''-1'' = Some (- 1)" "whole_of ''2'' = Some 2"
    by (simp_all add: whole_of_samples)
  have e: "main_loop whole_of whole_fmt \<lparr>stdin = [], stdout = out\<rparr> =
             (Some EOFError, \<lparr>stdin = [], stdout = out @ [Prompt ''Enter first number: '']\<rparr>)" for out
    by (subst main_loop_unfold) simp
  show ?thesis
    using h negative_rejection [OF h, where fmt = whole_fmt and rest = "[]" and out = "[]"
            and pairs = "[(''-1'', ''2''), (''3'', ''-4'')]"]
    by (simp add: e whole_of_samples)
qed

section \<open>How the scripts can fail\<close>




end
